theory Spec2Isabelle
  imports Complex_Main
begin

section \<open>Python values\<close>

text \<open>
  A Python \<open>str\<close> is a sequence of Unicode code points and \<open>len\<close> counts code points, so
  a string is a list of code points. \<open>py\<close> writes an ASCII literal of the source.
\<close>

type_synonym pystr = "nat list"

definition py :: "string \<Rightarrow> pystr" where
  "py s = map of_char s"

text \<open>The default description of the source, the three code points U+65E0 U+63CF U+8FF0.\<close>

definition no_description :: pystr where
  "no_description = [26080, 25551, 36848]"

text \<open>
  What \<open>response.json()\<close> returns. A dict is the list of its entries in insertion order,
  one entry per key, read with \<open>map_of\<close>. JSON numbers with a fraction or an exponent
  (Python floats) are left out: the program computes with \<open>total_count\<close> only, which the
  service sends as an integer. Python's \<open>bool\<close> is a subclass of \<open>int\<close>.
\<close>

datatype json =
    JNull
  | JBool bool
  | JInt int
  | JStr pystr
  | JList "json list"
  | JObj "(pystr \<times> json) list"

datatype py_error = TypeError | AttributeError | ZeroDivisionError | JSONDecodeError

text \<open>Sequencing of steps that may raise: the first exception ends the sequence.\<close>

definition and_then :: "'e + 'a \<Rightarrow> ('a \<Rightarrow> 'e + 'b) \<Rightarrow> 'e + 'b" where
  "and_then m f = (case m of Inl e \<Rightarrow> Inl e | Inr x \<Rightarrow> f x)"

text \<open>\<open>d.get(k, default)\<close>: only a dict has the method.\<close>

fun dict_get :: "json \<Rightarrow> pystr \<Rightarrow> json \<Rightarrow> py_error + json" where
  "dict_get (JObj kvs) k dflt = Inr (case map_of kvs k of None \<Rightarrow> dflt | Some v \<Rightarrow> v)"
| "dict_get _ k dflt = Inl AttributeError"

text \<open>\<open>len(x)\<close>: defined on strings, lists and dicts.\<close>

fun len :: "json \<Rightarrow> py_error + nat" where
  "len (JStr s) = Inr (length s)"
| "len (JList xs) = Inr (length xs)"
| "len (JObj kvs) = Inr (length kvs)"
| "len _ = Inl TypeError"

text \<open>\<open>s[:m]\<close>: a negative bound counts from the end.\<close>

definition slice_to :: "'a list \<Rightarrow> int \<Rightarrow> 'a list" where
  "slice_to s m = (if 0 \<le> m then take (nat m) s else take (nat (int (length s) + m)) s)"

text \<open>The truth value of \<open>x\<close> in \<open>if not x\<close>.\<close>

fun truthy :: "json \<Rightarrow> bool" where
  "truthy JNull = False"
| "truthy (JBool b) = b"
| "truthy (JInt n) = (n \<noteq> 0)"
| "truthy (JStr s) = (s \<noteq> [])"
| "truthy (JList xs) = (xs \<noteq> [])"
| "truthy (JObj kvs) = (kvs \<noteq> [])"

text \<open>The integer a value stands for in arithmetic and comparisons, if any.\<close>

fun as_int :: "json \<Rightarrow> int option" where
  "as_int (JInt n) = Some n"
| "as_int (JBool b) = Some (if b then 1 else 0)"
| "as_int _ = None"

text \<open>\<open>min(a, b)\<close> with an integer \<open>a\<close>: \<open>b\<close> if \<open>b < a\<close>, else \<open>a\<close>.\<close>

definition py_min :: "int \<Rightarrow> json \<Rightarrow> py_error + json" where
  "py_min a b = (case as_int b of None \<Rightarrow> Inl TypeError
                 | Some y \<Rightarrow> Inr (if y < a then b else JInt a))"

text \<open>The elements \<open>for repo in repos\<close> runs through: a string yields its characters, a dict its keys.\<close>

fun py_iter :: "json \<Rightarrow> py_error + json list" where
  "py_iter (JList xs) = Inr xs"
| "py_iter (JStr s) = Inr (map (\<lambda>c. JStr [c]) s)"
| "py_iter (JObj kvs) = Inr (map (\<lambda>kv. JStr (fst kv)) kvs)"
| "py_iter _ = Inl TypeError"

section \<open>The process and its environment\<close>

text \<open>
  One constructor for each \<open>print\<close> call of the source, with the values its f-string
  interpolates; the fixed text around them is not modelled.
\<close>

datatype request_exception = ConnectionError | Timeout | HTTPError int

datatype line =
    MsgRequestFailed request_exception
  | MsgNoResults
  | MsgHeader json int json int int
  | MsgRule
  | MsgName json
  | MsgOwner json
  | MsgStars json
  | MsgDescription json
  | MsgUrl json
  | MsgHint int
  | MsgPageError
  | MsgSearching pystr

record world =
  stdout :: "line list"
  net_calls :: nat

definition print :: "line \<Rightarrow> world \<Rightarrow> world" where
  "print l w = w\<lparr>stdout := stdout w @ [l]\<rparr>"

text \<open>
  How a run ends: the function returns, \<open>sys.exit(n)\<close> is called, or an exception nobody
  catches ends the interpreter, which then exits with status 1.
\<close>

datatype outcome = Returned | Exited int | Uncaught py_error

fun exit_status :: "outcome \<Rightarrow> int" where
  "exit_status Returned = 0"
| "exit_status (Exited n) = n"
| "exit_status (Uncaught e) = 1"

subsection \<open>The HTTP library\<close>

record request =
  url :: pystr
  params :: "(pystr \<times> json) list"
  headers :: "(pystr \<times> pystr) list"
  timeout :: nat

text \<open>
  What the network does with a request: no connection, no answer within the timeout, or a
  reply with a status code and a body, \<open>None\<close> when the body is not JSON.
\<close>

datatype transport = NoConnection | TimedOut | Reply int "json option"

record response =
  status_code :: int
  body :: "json option"

fun requests_get :: "transport \<Rightarrow> request_exception + response" where
  "requests_get NoConnection = Inl ConnectionError"
| "requests_get TimedOut = Inl Timeout"
| "requests_get (Reply s b) = Inr \<lparr>status_code = s, body = b\<rparr>"

text \<open>\<open>raise_for_status\<close> raises for the client and server error codes, 400 to 599.\<close>

definition raise_for_status :: "response \<Rightarrow> request_exception + unit" where
  "raise_for_status r =
     (if 400 \<le> status_code r \<and> status_code r < 600 then Inl (HTTPError (status_code r))
      else Inr ())"

definition response_json :: "response \<Rightarrow> py_error + json" where
  "response_json r = (case body r of None \<Rightarrow> Inl JSONDecodeError | Some d \<Rightarrow> Inr d)"

section \<open>The program\<close>

definition GITHUB_API_URL :: pystr where
  "GITHUB_API_URL = py ''https://api.github.com/search/repositories''"

text \<open>
  Lines 17 to 23. The argument is whatever the item holds, so \<open>len\<close> may raise. A long
  string is cut; a long list is sliced but cannot be added to a string, and a dict cannot be
  sliced at all (a \<open>TypeError\<close>; from Python 3.12 on, where a slice can be hashed, the
  lookup raises \<open>KeyError\<close> instead, which the model does not tell apart).
\<close>

definition truncate_text :: "json \<Rightarrow> int \<Rightarrow> py_error + json" where
  "truncate_text text max_length =
     and_then (len text) (\<lambda>n.
       if int n > max_length then
         (case text of
            JStr s \<Rightarrow> Inr (JStr (slice_to s max_length @ py ''...''))
          | _ \<Rightarrow> Inl TypeError)
       else Inr text)"

text \<open>The request of lines 29 to 43.\<close>

definition request_for :: "pystr \<Rightarrow> int \<Rightarrow> int \<Rightarrow> request" where
  "request_for query page per_page =
     \<lparr>url = GITHUB_API_URL,
      params = [(py ''q'', JStr query), (py ''sort'', JStr (py ''stars'')),
                (py ''order'', JStr (py ''desc'')), (py ''page'', JInt page),
                (py ''per_page'', JInt per_page)],
      headers = [(py ''Accept'', py ''application/vnd.github.v3+json''),
                 (py ''User-Agent'', py ''GitHub-Search-CLI'')],
      timeout = 10\<rparr>"

text \<open>Line 52: \<open>(total_count + per_page - 1) // per_page\<close>.\<close>

definition total_pages_of :: "json \<Rightarrow> int \<Rightarrow> py_error + int" where
  "total_pages_of total_count per_page =
     (case as_int total_count of
        None \<Rightarrow> Inl TypeError
      | Some t \<Rightarrow> if per_page = 0 then Inl ZeroDivisionError
                  else Inr ((t + per_page - 1) div per_page))"

text \<open>
  Lines 66 to 79, the body of the loop: the five values are read first, then the six lines
  are printed, so an item that raises prints nothing.
\<close>

definition repo_block :: "json \<Rightarrow> py_error + line list" where
  "repo_block repo =
     and_then (dict_get repo (py ''full_name'') (JStr (py ''N/A''))) (\<lambda>name.
     and_then (dict_get repo (py ''description'') (JStr no_description)) (\<lambda>description.
     and_then (truncate_text description 100) (\<lambda>description.
     and_then (dict_get repo (py ''stargazers_count'') (JInt 0)) (\<lambda>stars.
     and_then (dict_get repo (py ''html_url'') (JStr (py ''N/A''))) (\<lambda>html_url.
     and_then (dict_get repo (py ''owner'') (JObj [])) (\<lambda>owner_dict.
     and_then (dict_get owner_dict (py ''login'') (JStr (py ''N/A''))) (\<lambda>owner.
     Inr [MsgName name, MsgOwner owner, MsgStars stars, MsgDescription description,
          MsgUrl html_url, MsgRule])))))))"

fun render_repos :: "json list \<Rightarrow> world \<Rightarrow> py_error option \<times> world" where
  "render_repos [] w = (None, w)"
| "render_repos (repo # rest) w =
     (case repo_block repo of
        Inl e \<Rightarrow> (Some e, w)
      | Inr ls \<Rightarrow> render_repos rest (w\<lparr>stdout := stdout w @ ls\<rparr>))"

text \<open>
  Lines 25 to 83. \<open>net\<close> is the network the request goes to, and \<open>net_calls\<close> counts the
  calls of \<open>requests.get\<close>. Only the two statements of the \<open>try\<close> block are guarded; an
  exception raised later is not caught. Line 52 is evaluated before the test of line 54.
\<close>

definition search_github_repos ::
  "(request \<Rightarrow> transport) \<Rightarrow> pystr \<Rightarrow> int \<Rightarrow> int \<Rightarrow> world \<Rightarrow> outcome \<times> world" where
  "search_github_repos net query page per_page w =
     (let w1 = w\<lparr>net_calls := net_calls w + 1\<rparr> in
      case and_then (requests_get (net (request_for query page per_page))) (\<lambda>response.
           and_then (raise_for_status response) (\<lambda>_. Inr response)) of
        Inl e \<Rightarrow> (Exited 1, print (MsgRequestFailed e) w1)
      | Inr response \<Rightarrow>
          (case and_then (response_json response) (\<lambda>data.
                and_then (dict_get data (py ''items'') (JList [])) (\<lambda>repos.
                and_then (dict_get data (py ''total_count'') (JInt 0)) (\<lambda>total_count.
                and_then (total_pages_of total_count per_page) (\<lambda>total_pages.
                Inr (repos, total_count, total_pages))))) of
             Inl e \<Rightarrow> (Uncaught e, w1)
           | Inr (repos, total_count, total_pages) \<Rightarrow>
               if \<not> truthy repos then (Returned, print MsgNoResults w1)
               else
                 (let start_index = (page - 1) * per_page + 1 in
                  case py_min (page * per_page) total_count of
                    Inl e \<Rightarrow> (Uncaught e, w1)
                  | Inr end_index \<Rightarrow>
                      (let w2 = print MsgRule
                                  (print (MsgHeader total_count start_index end_index
                                            total_pages page) w1) in
                       case py_iter repos of
                         Inl e \<Rightarrow> (Uncaught e, w2)
                       | Inr rs \<Rightarrow>
                           (case render_repos rs w2 of
                              (Some e, w3) \<Rightarrow> (Uncaught e, w3)
                            | (None, w3) \<Rightarrow>
                                (Returned,
                                 if page < total_pages then print (MsgHint (page + 1)) w3
                                 else w3))))))"

text \<open>
  Lines 85 to 101, from the parsed arguments on: the keywords and the page number that
  \<open>parse_args\<close> returns (it accepts any integer, also a negative one).
\<close>

record args =
  args_query :: "pystr list"
  args_page :: int

text \<open>\<open>' '.join(tokens)\<close>.\<close>

fun join_space :: "pystr list \<Rightarrow> pystr" where
  "join_space [] = []"
| "join_space [t] = t"
| "join_space (t # ts) = t @ py '' '' @ join_space ts"

definition main :: "(request \<Rightarrow> transport) \<Rightarrow> args \<Rightarrow> world \<Rightarrow> outcome \<times> world" where
  "main net a w =
     (let query = join_space (args_query a); page = args_page a in
      if page < 1 then (Exited 1, print MsgPageError w)
      else search_github_repos net query page 10 (print (MsgSearching query) w))"

section \<open>Notions used to state the properties\<close>

text \<open>A network that answers every request the same way, and the world a run starts in.\<close>

definition always :: "transport \<Rightarrow> request \<Rightarrow> transport" where
  "always t r = t"

definition initial_world :: world where
  "initial_world = \<lparr>stdout = [], net_calls = 0\<rparr>"

text \<open>Whether the loop body completes on an item, and the lines it then prints.\<close>

definition renders :: "json \<Rightarrow> bool" where
  "renders repo = (case repo_block repo of Inl e \<Rightarrow> False | Inr ls \<Rightarrow> True)"

definition block_lines :: "json \<Rightarrow> line list" where
  "block_lines repo = (case repo_block repo of Inl e \<Rightarrow> [] | Inr ls \<Rightarrow> ls)"






section \<open>Basic facts\<close>

lemma py_eq_iff [simp]: "py a = py b \<longleftrightarrow> a = b"
  unfolding py_def by (simp add: inj_of_char)

lemma length_py [simp]: "length (py s) = length s"
  by (simp add: py_def)

lemma and_then_simps [simp]:
  "and_then (Inl e) f = Inl e"
  "and_then (Inr x) f = f x"
  by (simp_all add: and_then_def)

lemma and_then_eq_Inr:
  "and_then m f = Inr y \<longleftrightarrow> (\<exists>x. m = Inr x \<and> f x = Inr y)"
  by (cases m) simp_all

lemma and_then_eq_Inl:
  "and_then m f = Inl e \<longleftrightarrow> m = Inl e \<or> (\<exists>x. m = Inr x \<and> f x = Inl e)"
  by (cases m) simp_all

lemma div_round_up:
  fixes t p :: int
  assumes "0 < p"
  shows "(t + p - 1) div p = \<lceil>real_of_int t / real_of_int p\<rceil>"
proof -
  define q where "q = t div p"
  define r where "r = t mod p"
  have t: "t = p * q + r" and r: "0 \<le> r" "r < p"
    using assms by (simp_all add: q_def r_def)
  have "(t + p - 1) div p = - ((- t) div p)"
  proof (cases "r = 0")
    case True
    have "(t + p - 1) div p = q"
      by (rule int_div_pos_eq [where r = "p - 1"]) (use t True assms in simp_all)
    moreover have "(- t) div p = - q"
      by (rule int_div_pos_eq [where r = 0]) (use t True assms in simp_all)
    ultimately show ?thesis by simp
  next
    case False
    have "(t + p - 1) div p = q + 1"
      by (rule int_div_pos_eq [where r = "r - 1"]) (use t False r in \<open>simp_all add: algebra_simps\<close>)
    moreover have "(- t) div p = - q - 1"
      by (rule int_div_pos_eq [where r = "p - r"]) (use t False r in \<open>simp_all add: algebra_simps\<close>)
    ultimately show ?thesis by simp
  qed
  then show ?thesis
    by (simp add: ceiling_divide_eq_div)
qed

lemma repo_block_shape:
  assumes "repo_block repo = Inr ls"
  shows "\<exists>a b c d e. ls = [MsgName a, MsgOwner b, MsgStars c, MsgDescription d, MsgUrl e, MsgRule]"
  using assms unfolding repo_block_def by (auto simp: and_then_eq_Inr)


lemma raise_for_status_ok:
  "\<not> (400 \<le> s \<and> s < 600) \<Longrightarrow> raise_for_status \<lparr>status_code = s, body = b\<rparr> = Inr ()"
  by (auto simp: raise_for_status_def)

lemma search_reply:
  assumes "net (request_for query page per_page) = Reply s (Some data)"
    and "\<not> (400 \<le> s \<and> s < 600)"
    and "dict_get data (py ''items'') (JList []) = Inr repos"
    and "dict_get data (py ''total_count'') (JInt 0) = Inr (JInt t)"
    and "per_page \<noteq> 0"
  shows "search_github_repos net query page per_page w =
     (let w1 = w\<lparr>net_calls := net_calls w + 1\<rparr>; total_pages = (t + per_page - 1) div per_page in
      if \<not> truthy repos then (Returned, print MsgNoResults w1)
      else
        (let w2 = print MsgRule
                    (print (MsgHeader (JInt t) ((page - 1) * per_page + 1)
                              (JInt (min (page * per_page) t)) total_pages page) w1) in
         case py_iter repos of
           Inl e \<Rightarrow> (Uncaught e, w2)
         | Inr rs \<Rightarrow>
             (case render_repos rs w2 of
                (Some e, w3) \<Rightarrow> (Uncaught e, w3)
              | (None, w3) \<Rightarrow>
                  (Returned, if page < total_pages then print (MsgHint (page + 1)) w3 else w3))))"
  using assms(1,3,4,5)
  by (simp add: search_github_repos_def raise_for_status_ok [OF assms(2)] response_json_def
      total_pages_of_def py_min_def Let_def min_def)

lemma render_repos_grows:
  "\<exists>out. stdout (snd (render_repos rs w)) = stdout w @ out"
proof (induction rs arbitrary: w)
  case Nil
  then show ?case by simp
next
  case (Cons r rs)
  show ?case
  proof (cases "repo_block r")
    case (Inl e)
    then show ?thesis by simp
  next
    case (Inr ls)
    from Cons.IH [of "w\<lparr>stdout := stdout w @ ls\<rparr>"] Inr show ?thesis by auto
  qed
qed

lemma render_repos_append:
  assumes "\<forall>r \<in> set pre. renders r"
  shows "render_repos (pre @ rest) w =
         render_repos rest (w\<lparr>stdout := stdout w @ concat (map block_lines pre)\<rparr>)"
  using assms
proof (induction pre arbitrary: w)
  case Nil
  then show ?case by simp
next
  case (Cons r pre)
  from Cons.prems obtain ls where ls: "repo_block r = Inr ls"
    by (auto simp: renders_def split: sum.splits)
  with Cons show ?case
    by (simp add: block_lines_def)
qed

lemma search_items:
  assumes "net (request_for query page per_page) = Reply s (Some data)"
    and "\<not> (400 \<le> s \<and> s < 600)"
    and "dict_get data (py ''items'') (JList []) = Inr (JList rs)"
    and "dict_get data (py ''total_count'') (JInt 0) = Inr (JInt t)"
    and "per_page \<noteq> 0"
    and "rs \<noteq> []"
  shows "search_github_repos net query page per_page w =
     (case render_repos rs
             (w\<lparr>net_calls := net_calls w + 1,
                stdout := stdout w @
                  [MsgHeader (JInt t) ((page - 1) * per_page + 1)
                     (JInt (min (page * per_page) t)) ((t + per_page - 1) div per_page) page,
                   MsgRule]\<rparr>) of
        (Some e, w3) \<Rightarrow> (Uncaught e, w3)
      | (None, w3) \<Rightarrow>
          (Returned, if page < (t + per_page - 1) div per_page
                     then print (MsgHint (page + 1)) w3 else w3))"
  unfolding search_reply [where net = net and w = w, OF assms(1-5)]
  using assms(6) by (simp add: Let_def print_def)

lemma search_header:
  assumes "net (request_for query page per_page) = Reply s (Some data)"
    and "\<not> (400 \<le> s \<and> s < 600)"
    and "dict_get data (py ''items'') (JList []) = Inr (JList rs)"
    and "dict_get data (py ''total_count'') (JInt 0) = Inr (JInt t)"
    and "per_page \<noteq> 0"
    and "rs \<noteq> []"
  shows "\<exists>rest. stdout (snd (search_github_repos net query page per_page w)) =
           stdout w @ MsgHeader (JInt t) ((page - 1) * per_page + 1)
                        (JInt (min (page * per_page) t))
                        ((t + per_page - 1) div per_page) page # MsgRule # rest"
proof -
  define w2 where "w2 = w\<lparr>net_calls := net_calls w + 1,
                stdout := stdout w @
                  [MsgHeader (JInt t) ((page - 1) * per_page + 1)
                     (JInt (min (page * per_page) t)) ((t + per_page - 1) div per_page) page,
                   MsgRule]\<rparr>"
  obtain out where out: "stdout (snd (render_repos rs w2)) = stdout w2 @ out"
    using render_repos_grows by blast
  obtain eo w3 where run: "render_repos rs w2 = (eo, w3)"
    by (cases "render_repos rs w2")
  from out run have w3: "stdout w3 = stdout w2 @ out"
    by simp
  have "search_github_repos net query page per_page w =
      (case eo of Some e \<Rightarrow> (Uncaught e, w3)
       | None \<Rightarrow> (Returned, if page < (t + per_page - 1) div per_page
                             then print (MsgHint (page + 1)) w3 else w3))"
    unfolding search_items [where net = net and w = w, OF assms] w2_def [symmetric]
    using run by (simp split: option.splits)
  then show ?thesis
    using w3 by (cases eo) (auto simp: w2_def print_def)
qed

lemma truncate_no_description:
  "truncate_text (JStr no_description) 100 = Inr (JStr no_description)"
  by (simp add: truncate_text_def no_description_def)

lemma repo_block_empty:
  "repo_block (JObj []) =
   Inr [MsgName (JStr (py ''N/A'')), MsgOwner (JStr (py ''N/A'')), MsgStars (JInt 0),
        MsgDescription (JStr no_description), MsgUrl (JStr (py ''N/A'')), MsgRule]"
  by (simp add: repo_block_def truncate_no_description)

lemma renders_empty: "renders (JObj [])"
  by (simp add: renders_def repo_block_empty)

lemma block_lines_empty:
  "block_lines (JObj []) =
   [MsgName (JStr (py ''N/A'')), MsgOwner (JStr (py ''N/A'')), MsgStars (JInt 0),
    MsgDescription (JStr no_description), MsgUrl (JStr (py ''N/A'')), MsgRule]"
  by (simp add: block_lines_def repo_block_empty)

lemma render_repos_outcome:
  "fst (render_repos rs w) = None \<longleftrightarrow> (\<forall>r \<in> set rs. renders r)"
proof (induction rs arbitrary: w)
  case Nil
  then show ?case by simp
next
  case (Cons r rs)
  then show ?case
    by (cases "repo_block r") (simp_all add: renders_def)
qed

lemma render_repos_no_hint:
  "MsgHint n \<in> set (stdout (snd (render_repos rs w))) \<longleftrightarrow> MsgHint n \<in> set (stdout w)"
proof (induction rs arbitrary: w)
  case Nil
  then show ?case by simp
next
  case (Cons r rs)
  show ?case
  proof (cases "repo_block r")
    case (Inl e)
    then show ?thesis by simp
  next
    case (Inr ls)
    with repo_block_shape [OF Inr] Cons.IH [of "w\<lparr>stdout := stdout w @ ls\<rparr>"]
    show ?thesis by auto
  qed
qed






section \<open>Pagination\<close>

text \<open>
  C1: for every page size \<open>per_page > 0\<close> and every total count \<open>t\<close>, the page count
  line 52 computes is the ceiling of \<open>t / per_page\<close>, and it is the page count the header
  of a non-empty page shows; a count of 0 gives 0 pages, 10 with page size 10 gives 1, 11
  gives 2 and 100 gives 10.
\<close>

theorem total_pages_is_ceiling:
  assumes "0 < per_page"
    and "net (request_for query page per_page) = Reply s (Some data)"
    and "\<not> (400 \<le> s \<and> s < 600)"
    and "dict_get data (py ''total_count'') (JInt 0) = Inr (JInt t)"
    and "dict_get data (py ''items'') (JList []) = Inr (JList rs)"
    and "rs \<noteq> []"
  shows "total_pages_of (JInt t) per_page = Inr \<lceil>real_of_int t / real_of_int per_page\<rceil> \<and>
         (\<exists>first_shown last_shown rest.
            stdout (snd (search_github_repos net query page per_page w)) =
            stdout w @ MsgHeader (JInt t) first_shown last_shown
                         \<lceil>real_of_int t / real_of_int per_page\<rceil> page # rest) \<and>
         total_pages_of (JInt 0) per_page = Inr 0 \<and>
         total_pages_of (JInt 10) 10 = Inr 1 \<and>
         total_pages_of (JInt 11) 10 = Inr 2 \<and>
         total_pages_of (JInt 100) 10 = Inr 10"
proof -
  have pp: "per_page \<noteq> 0"
    using assms(1) by simp
  have "total_pages_of (JInt t) per_page = Inr \<lceil>real_of_int t / real_of_int per_page\<rceil>"
    using pp div_round_up [OF assms(1)] by (simp add: total_pages_of_def)
  moreover have "\<exists>first_shown last_shown rest.
            stdout (snd (search_github_repos net query page per_page w)) =
            stdout w @ MsgHeader (JInt t) first_shown last_shown
                         \<lceil>real_of_int t / real_of_int per_page\<rceil> page # rest"
    using search_header [where net = net and w = w, OF assms(2,3,5,4) pp assms(6)] div_round_up [OF assms(1), of t]
    by auto
  moreover have "total_pages_of (JInt 0) per_page = Inr 0"
    using assms(1) by (simp add: total_pages_of_def)
  moreover have "total_pages_of (JInt 10) 10 = Inr 1" "total_pages_of (JInt 11) 10 = Inr 2"
    "total_pages_of (JInt 100) 10 = Inr 10"
    by (simp_all add: total_pages_of_def)
  ultimately show ?thesis
    by blast
qed

theorem total_pages_is_ceiling_witness:
  "(0::int) < 10 \<and>
   (\<exists>first_shown last_shown rest.
      stdout (snd (search_github_repos
        (always (Reply 200 (Some (JObj [(py ''total_count'', JInt 11),
                                        (py ''items'', JList [JObj []])]))))
        (py ''python'') 1 10 initial_world)) =
      stdout initial_world @ MsgHeader (JInt 11) first_shown last_shown 2 1 # rest)"
  using total_pages_is_ceiling [where per_page = 10 and page = 1 and query = "py ''python''" and s = 200
      and data = "JObj [(py ''total_count'', JInt 11), (py ''items'', JList [JObj []])]"
      and net = "always (Reply 200 (Some (JObj [(py ''total_count'', JInt 11), (py ''items'', JList [JObj []])])))"
      and rs = "[JObj []]" and t = 11 and w = initial_world]
  by (simp add: always_def)

text \<open>
  C7: for every page size \<open>per_page > 0\<close>, the header of a non-empty page shows the range
  from \<open>(page - 1) * per_page + 1\<close> to \<open>min (page * per_page) t\<close>; page 2 of 25 results
  with page size 10 shows 11 to 20.
\<close>

theorem displayed_range:
  assumes "0 < per_page"
    and "net (request_for query page per_page) = Reply s (Some data)"
    and "\<not> (400 \<le> s \<and> s < 600)"
    and "dict_get data (py ''total_count'') (JInt 0) = Inr (JInt t)"
    and "dict_get data (py ''items'') (JList []) = Inr (JList rs)"
    and "rs \<noteq> []"
  shows "\<exists>pages rest.
           stdout (snd (search_github_repos net query page per_page w)) =
           stdout w @ MsgHeader (JInt t) ((page - 1) * per_page + 1)
                        (JInt (min (page * per_page) t)) pages page # rest"
proof -
  have "per_page \<noteq> 0"
    using assms(1) by simp
  from search_header [where net = net and w = w, OF assms(2,3,5,4) this assms(6)] show ?thesis
    by blast
qed

theorem displayed_range_witness:
  "(0::int) < 10 \<and>
   (\<exists>pages rest.
      stdout (snd (search_github_repos
        (always (Reply 200 (Some (JObj [(py ''total_count'', JInt 25),
                                        (py ''items'', JList [JObj []])]))))
        (py ''python'') 2 10 initial_world)) =
      stdout initial_world @ MsgHeader (JInt 25) 11 (JInt 20) pages 2 # rest)"
  using displayed_range [where per_page = 10 and page = 2 and query = "py ''python''" and s = 200
      and data = "JObj [(py ''total_count'', JInt 25), (py ''items'', JList [JObj []])]"
      and net = "always (Reply 200 (Some (JObj [(py ''total_count'', JInt 25), (py ''items'', JList [JObj []])])))"
      and rs = "[JObj []]" and t = 25 and w = initial_world]
  by (simp add: always_def)

text \<open>
  C8: on a non-empty page the hint for \<open>page + 1\<close> is to be printed exactly when the page
  is below the page count. The program does not do so on a page that holds an item with a
  null description: on page 1 of 25 results, 3 pages, with such an item, the loop body
  raises \<open>TypeError\<close> on it, nothing catches the exception, and the run ends after the
  header and the rule without the hint the page is due.
\<close>

theorem hint_lost_after_null_description:
  "total_pages_of (JInt 25) 10 = Inr 3 \<and>
   search_github_repos
     (always (Reply 200 (Some (JObj [(py ''total_count'', JInt 25),
        (py ''items'', JList [JObj [(py ''description'', JNull)]])]))))
     (py ''python'') 1 10 initial_world =
   (Uncaught TypeError,
    \<lparr>stdout = [MsgHeader (JInt 25) 1 (JInt 10) 3 1, MsgRule], net_calls = 1\<rparr>) \<and>
   MsgHint 2 \<notin> set (stdout (snd (search_github_repos
     (always (Reply 200 (Some (JObj [(py ''total_count'', JInt 25),
        (py ''items'', JList [JObj [(py ''description'', JNull)]])]))))
     (py ''python'') 1 10 initial_world)))"
  by (simp add: search_github_repos_def always_def raise_for_status_def response_json_def
      total_pages_of_def py_min_def print_def initial_world_def repo_block_def
      truncate_text_def)

text \<open>
  The hint statement itself is right: when the loop body completes on every item, the
  function returns and has printed a hint exactly when the page is below the page count,
  and the hint names \<open>page + 1\<close>.
\<close>

lemma hint_when_items_render:
  assumes "0 < per_page"
    and "net (request_for query page per_page) = Reply s (Some data)"
    and "\<not> (400 \<le> s \<and> s < 600)"
    and "dict_get data (py ''total_count'') (JInt 0) = Inr (JInt t)"
    and "dict_get data (py ''items'') (JList []) = Inr (JList rs)"
    and "rs \<noteq> []"
    and "list_all renders rs"
  shows "fst (search_github_repos net query page per_page w) = Returned \<and>
         (MsgHint n \<in> set (stdout (snd (search_github_repos net query page per_page w))) \<longleftrightarrow>
          MsgHint n \<in> set (stdout w) \<or>
          n = page + 1 \<and> page < (t + per_page - 1) div per_page)"
proof -
  define w2 where "w2 = w\<lparr>net_calls := net_calls w + 1,
                stdout := stdout w @
                  [MsgHeader (JInt t) ((page - 1) * per_page + 1)
                     (JInt (min (page * per_page) t)) ((t + per_page - 1) div per_page) page,
                   MsgRule]\<rparr>"
  obtain eo w3 where loop: "render_repos rs w2 = (eo, w3)"
    by (cases "render_repos rs w2")
  have pp: "per_page \<noteq> 0"
    using assms(1) by simp
  have run: "search_github_repos net query page per_page w =
      (case eo of Some e \<Rightarrow> (Uncaught e, w3)
       | None \<Rightarrow> (Returned, if page < (t + per_page - 1) div per_page
                             then print (MsgHint (page + 1)) w3 else w3))"
    unfolding search_items [where net = net and w = w, OF assms(2,3,5,4) pp assms(6)]
      w2_def [symmetric]
    using loop by (simp split: option.splits)
  have "MsgHint n \<in> set (stdout w2) \<longleftrightarrow> MsgHint n \<in> set (stdout w)"
    by (simp add: w2_def)
  with render_repos_no_hint [of n rs w2] loop
  have quiet: "MsgHint n \<in> set (stdout w3) \<longleftrightarrow> MsgHint n \<in> set (stdout w)"
    by simp
  from render_repos_outcome [of rs w2] loop assms(7) have "eo = None"
    by (simp add: list_all_iff)
  with run quiet show ?thesis
    by (auto simp: print_def)
qed

section \<open>Rendering an item\<close>

text \<open>
  C2: for every string \<open>s\<close>, \<open>truncate_text(s, 100)\<close> returns \<open>s\<close> unchanged when it has at
  most 100 characters and its first 100 characters followed by the ellipsis \<open>...\<close> when
  it has more; a string of 150 characters becomes 100 characters plus the ellipsis.
\<close>

theorem truncate_text_at_100:
  "truncate_text (JStr s) 100 =
     Inr (JStr (if length s \<le> 100 then s else take 100 s @ py ''...'')) \<and>
   (length s = 150 \<longrightarrow>
     (\<exists>u. truncate_text (JStr s) 100 = Inr (JStr u) \<and> length u = 103 \<and>
          take 100 u = take 100 s \<and> drop 100 u = py ''...''))"
  by (simp add: truncate_text_def slice_to_def)

theorem truncate_text_at_100_witness:
  "length (replicate 150 (97::nat)) = 150 \<and>
   truncate_text (JStr (replicate 150 97)) 100 = Inr (JStr (replicate 100 97 @ py ''...''))"
  using truncate_text_at_100 [of "replicate 150 97"] by simp

text \<open>
  C3: when a field of an item (full name, owner, owner login, star count, description,
  URL) is absent, the rendered line carries its placeholder (\<open>N/A\<close>, the no-description
  text, 0), and an item never raises because a field is missing: whenever the loop body
  raises on an item, the exception comes from a value that is present (its description, on
  which \<open>truncate_text\<close> raised, or its owner, which has no \<open>get\<close>).
\<close>

theorem missing_fields_use_placeholders:
  "(repo_block (JObj kvs) = Inr ls \<longrightarrow>
      (map_of kvs (py ''full_name'') = None \<longrightarrow> ls ! 0 = MsgName (JStr (py ''N/A''))) \<and>
      (map_of kvs (py ''owner'') = None \<longrightarrow> ls ! 1 = MsgOwner (JStr (py ''N/A''))) \<and>
      (\<forall>okvs. map_of kvs (py ''owner'') = Some (JObj okvs) \<and> map_of okvs (py ''login'') = None
          \<longrightarrow> ls ! 1 = MsgOwner (JStr (py ''N/A''))) \<and>
      (map_of kvs (py ''stargazers_count'') = None \<longrightarrow> ls ! 2 = MsgStars (JInt 0)) \<and>
      (map_of kvs (py ''description'') = None \<longrightarrow>
          ls ! 3 = MsgDescription (JStr no_description)) \<and>
      (map_of kvs (py ''html_url'') = None \<longrightarrow> ls ! 4 = MsgUrl (JStr (py ''N/A'')))) \<and>
   (repo_block (JObj kvs) = Inl e \<longrightarrow>
      (\<exists>v. map_of kvs (py ''description'') = Some v \<and> truncate_text v 100 = Inl e) \<or>
      (\<exists>v. map_of kvs (py ''owner'') = Some v \<and>
           dict_get v (py ''login'') (JStr (py ''N/A'')) = Inl e))"
proof (intro conjI impI)
  assume ok: "repo_block (JObj kvs) = Inr ls"
  then obtain d ow where
    d: "truncate_text (case map_of kvs (py ''description'') of None \<Rightarrow> JStr no_description
                       | Some v \<Rightarrow> v) 100 = Inr d"
    and ow: "dict_get (case map_of kvs (py ''owner'') of None \<Rightarrow> JObj [] | Some v \<Rightarrow> v)
               (py ''login'') (JStr (py ''N/A'')) = Inr ow"
    and ls: "ls = [MsgName (case map_of kvs (py ''full_name'') of None \<Rightarrow> JStr (py ''N/A'')
                            | Some v \<Rightarrow> v),
                   MsgOwner ow,
                   MsgStars (case map_of kvs (py ''stargazers_count'') of None \<Rightarrow> JInt 0
                             | Some v \<Rightarrow> v),
                   MsgDescription d,
                   MsgUrl (case map_of kvs (py ''html_url'') of None \<Rightarrow> JStr (py ''N/A'')
                           | Some v \<Rightarrow> v),
                   MsgRule]"
    by (auto simp: repo_block_def and_then_eq_Inr)
  show "map_of kvs (py ''full_name'') = None \<Longrightarrow> ls ! 0 = MsgName (JStr (py ''N/A''))"
    using ls by simp
  show "map_of kvs (py ''owner'') = None \<Longrightarrow> ls ! 1 = MsgOwner (JStr (py ''N/A''))"
    using ls ow by auto
  show "\<forall>okvs. map_of kvs (py ''owner'') = Some (JObj okvs) \<and> map_of okvs (py ''login'') = None
          \<longrightarrow> ls ! 1 = MsgOwner (JStr (py ''N/A''))"
    using ls ow by auto
  show "map_of kvs (py ''stargazers_count'') = None \<Longrightarrow> ls ! 2 = MsgStars (JInt 0)"
    using ls by simp
  show "map_of kvs (py ''description'') = None \<Longrightarrow> ls ! 3 = MsgDescription (JStr no_description)"
    using ls d by (simp add: truncate_no_description)
  show "map_of kvs (py ''html_url'') = None \<Longrightarrow> ls ! 4 = MsgUrl (JStr (py ''N/A''))"
    using ls by simp
next
  assume bad: "repo_block (JObj kvs) = Inl e"
  show "(\<exists>v. map_of kvs (py ''description'') = Some v \<and> truncate_text v 100 = Inl e) \<or>
      (\<exists>v. map_of kvs (py ''owner'') = Some v \<and>
           dict_get v (py ''login'') (JStr (py ''N/A'')) = Inl e)"
    using bad
    by (auto simp: repo_block_def and_then_eq_Inl truncate_no_description split: option.splits)
qed

theorem missing_fields_use_placeholders_witness:
  "repo_block (JObj []) =
     Inr [MsgName (JStr (py ''N/A'')), MsgOwner (JStr (py ''N/A'')), MsgStars (JInt 0),
          MsgDescription (JStr no_description), MsgUrl (JStr (py ''N/A'')), MsgRule] \<and>
   [MsgName (JStr (py ''N/A'')), MsgOwner (JStr (py ''N/A'')), MsgStars (JInt 0),
    MsgDescription (JStr no_description), MsgUrl (JStr (py ''N/A'')), MsgRule] ! 3 =
     MsgDescription (JStr no_description) \<and>
   repo_block (JObj [(py ''owner'', JInt 7)]) = Inl AttributeError \<and>
   map_of [(py ''owner'', JInt 7)] (py ''owner'') = Some (JInt 7) \<and>
   dict_get (JInt 7) (py ''login'') (JStr (py ''N/A'')) = Inl AttributeError"
  using missing_fields_use_placeholders [of "[]"
      "[MsgName (JStr (py ''N/A'')), MsgOwner (JStr (py ''N/A'')), MsgStars (JInt 0),
        MsgDescription (JStr no_description), MsgUrl (JStr (py ''N/A'')), MsgRule]" TypeError]
    missing_fields_use_placeholders [of "[(py ''owner'', JInt 7)]" "[]" AttributeError]
  by (simp add: repo_block_empty) (simp add: repo_block_def truncate_no_description)

text \<open>
  C9: an item whose description is present but null raises. \<open>truncate_text\<close> applies
  \<open>len\<close> to the null value, which raises \<open>TypeError\<close>, so the loop body raises on every
  such item, and a page that holds one ends in an uncaught \<open>TypeError\<close> after the blocks
  of the items before it: the placeholder covers an absent key only.
\<close>

theorem null_description_raises:
  "truncate_text JNull 100 = Inl TypeError \<and>
   (map_of kvs (py ''description'') = Some JNull \<longrightarrow> repo_block (JObj kvs) = Inl TypeError) \<and>
   (map_of kvs (py ''description'') = Some JNull \<and>
    net (request_for query page per_page) = Reply s (Some data) \<and>
    \<not> (400 \<le> s \<and> s < 600) \<and>
    dict_get data (py ''total_count'') (JInt 0) = Inr (JInt t) \<and>
    dict_get data (py ''items'') (JList []) = Inr (JList (before @ JObj kvs # after)) \<and>
    (\<forall>r \<in> set before. renders r) \<and> per_page \<noteq> 0 \<longrightarrow>
    search_github_repos net query page per_page w =
      (Uncaught TypeError,
       w\<lparr>net_calls := net_calls w + 1,
         stdout := stdout w @
           [MsgHeader (JInt t) ((page - 1) * per_page + 1)
              (JInt (min (page * per_page) t)) ((t + per_page - 1) div per_page) page,
            MsgRule] @
           concat (map block_lines before)\<rparr>))"
proof (intro conjI impI)
  show null: "truncate_text JNull 100 = Inl TypeError"
    by (simp add: truncate_text_def)
  show item: "repo_block (JObj kvs) = Inl TypeError"
    if "map_of kvs (py ''description'') = Some JNull"
    using that null by (simp add: repo_block_def)
  assume a: "map_of kvs (py ''description'') = Some JNull \<and>
    net (request_for query page per_page) = Reply s (Some data) \<and>
    \<not> (400 \<le> s \<and> s < 600) \<and>
    dict_get data (py ''total_count'') (JInt 0) = Inr (JInt t) \<and>
    dict_get data (py ''items'') (JList []) = Inr (JList (before @ JObj kvs # after)) \<and>
    (\<forall>r \<in> set before. renders r) \<and> per_page \<noteq> 0"
  then have bad: "repo_block (JObj kvs) = Inl TypeError"
    using item by blast
  have ne: "before @ JObj kvs # after \<noteq> []"
    by simp
  from a have "search_github_repos net query page per_page w =
     (case render_repos (before @ JObj kvs # after)
             (w\<lparr>net_calls := net_calls w + 1,
                stdout := stdout w @
                  [MsgHeader (JInt t) ((page - 1) * per_page + 1)
                     (JInt (min (page * per_page) t)) ((t + per_page - 1) div per_page) page,
                   MsgRule]\<rparr>) of
        (Some e, w3) \<Rightarrow> (Uncaught e, w3)
      | (None, w3) \<Rightarrow>
          (Returned, if page < (t + per_page - 1) div per_page
                     then print (MsgHint (page + 1)) w3 else w3))"
    using search_items [where net = net and w = w and rs = "before @ JObj kvs # after", OF _ _ _ _ _ ne]
    by blast
  also from a have "render_repos (before @ JObj kvs # after)
             (w\<lparr>net_calls := net_calls w + 1,
                stdout := stdout w @
                  [MsgHeader (JInt t) ((page - 1) * per_page + 1)
                     (JInt (min (page * per_page) t)) ((t + per_page - 1) div per_page) page,
                   MsgRule]\<rparr>) =
      (Some TypeError,
       w\<lparr>net_calls := net_calls w + 1,
         stdout := stdout w @
           [MsgHeader (JInt t) ((page - 1) * per_page + 1)
              (JInt (min (page * per_page) t)) ((t + per_page - 1) div per_page) page,
            MsgRule] @
           concat (map block_lines before)\<rparr>)"
    using bad by (simp add: render_repos_append)
  finally show "search_github_repos net query page per_page w =
      (Uncaught TypeError,
       w\<lparr>net_calls := net_calls w + 1,
         stdout := stdout w @
           [MsgHeader (JInt t) ((page - 1) * per_page + 1)
              (JInt (min (page * per_page) t)) ((t + per_page - 1) div per_page) page,
            MsgRule] @
           concat (map block_lines before)\<rparr>)"
    by simp
qed

theorem null_description_raises_witness:
  "map_of [(py ''full_name'', JStr (py ''a/b'')), (py ''description'', JNull)]
     (py ''description'') = Some JNull \<and>
   repo_block (JObj [(py ''full_name'', JStr (py ''a/b'')), (py ''description'', JNull)]) =
     Inl TypeError \<and>
   search_github_repos
     (always (Reply 200 (Some (JObj [(py ''total_count'', JInt 2),
        (py ''items'', JList [JObj [],
           JObj [(py ''full_name'', JStr (py ''a/b'')), (py ''description'', JNull)]])]))))
     (py ''python'') 1 10 initial_world =
   (Uncaught TypeError,
    \<lparr>stdout = [MsgHeader (JInt 2) 1 (JInt 2) 1 1, MsgRule] @ block_lines (JObj []),
     net_calls = 1\<rparr>)"
  using null_description_raises [where per_page = 10 and page = 1 and query = "py ''python''"
      and s = 200 and t = 2 and before = "[JObj []]" and after = "[]" and w = initial_world
      and kvs = "[(py ''full_name'', JStr (py ''a/b'')), (py ''description'', JNull)]"
      and data = "JObj [(py ''total_count'', JInt 2),
        (py ''items'', JList [JObj [],
           JObj [(py ''full_name'', JStr (py ''a/b'')), (py ''description'', JNull)]])]"
      and net = "always (Reply 200 (Some (JObj [(py ''total_count'', JInt 2),
        (py ''items'', JList [JObj [],
           JObj [(py ''full_name'', JStr (py ''a/b'')), (py ''description'', JNull)]])])))"]
  by (simp add: always_def renders_empty initial_world_def)

section \<open>Failures\<close>

text \<open>
  C4: for every page argument below 1, \<open>main\<close> prints the page error and exits with
  status 1, a non-zero status, without any network call.
\<close>

theorem page_below_one_is_rejected:
  assumes "args_page a < 1"
  shows "main net a w = (Exited 1, w\<lparr>stdout := stdout w @ [MsgPageError]\<rparr>) \<and>
         exit_status (fst (main net a w)) \<noteq> 0 \<and>
         net_calls (snd (main net a w)) = net_calls w"
  using assms by (simp add: main_def print_def Let_def)

theorem page_below_one_is_rejected_witness:
  "args_page \<lparr>args_query = [py ''python''], args_page = 0\<rparr> < 1 \<and>
   main (always NoConnection) \<lparr>args_query = [py ''python''], args_page = 0\<rparr> initial_world =
     (Exited 1, \<lparr>stdout = [MsgPageError], net_calls = 0\<rparr>)"
  using page_below_one_is_rejected [of "\<lparr>args_query = [py ''python''], args_page = 0\<rparr>"
      "always NoConnection" initial_world]
  by (simp add: initial_world_def)

text \<open>
  A status outside 200 to 299 is not always an error for the program: \<open>raise_for_status\<close>
  lets a status below 400 pass. A reply with status 300 and the body \<open>{}\<close> ends in the
  no-results message and exit status 0.
\<close>

theorem non_2xx_status_counterexample:
  "\<not> (200 \<le> (300::int) \<and> (300::int) < 300) \<and>
   search_github_repos (always (Reply 300 (Some (JObj [])))) (py ''python'') 1 10 initial_world =
     (Returned, \<lparr>stdout = [MsgNoResults], net_calls = 1\<rparr>) \<and>
   exit_status (fst (search_github_repos (always (Reply 300 (Some (JObj []))))
                       (py ''python'') 1 10 initial_world)) = 0"
  by (simp add: search_github_repos_def always_def raise_for_status_def response_json_def
      total_pages_of_def print_def initial_world_def)

text \<open>
  C5, amended: for every connection failure, timeout or reply with a status from 400 to
  599, the program prints the request-failed message and exits with status 1, after a
  single request.
\<close>

theorem failed_request_is_fatal:
  assumes "net (request_for query page per_page) = NoConnection \<or>
           net (request_for query page per_page) = TimedOut \<or>
           (\<exists>b. net (request_for query page per_page) = Reply s b \<and> 400 \<le> s \<and> s < 600)"
  shows "(\<exists>e. search_github_repos net query page per_page w =
            (Exited 1, w\<lparr>net_calls := net_calls w + 1,
                          stdout := stdout w @ [MsgRequestFailed e]\<rparr>)) \<and>
         exit_status (fst (search_github_repos net query page per_page w)) = 1"
  using assms
  by (auto simp: search_github_repos_def raise_for_status_def print_def)

theorem failed_request_is_fatal_witness:
  "search_github_repos (always (Reply 503 None)) (py ''python'') 1 10 initial_world =
     (Exited 1, \<lparr>stdout = [MsgRequestFailed (HTTPError 503)], net_calls = 1\<rparr>) \<and>
   search_github_repos (always NoConnection) (py ''python'') 1 10 initial_world =
     (Exited 1, \<lparr>stdout = [MsgRequestFailed ConnectionError], net_calls = 1\<rparr>) \<and>
   search_github_repos (always TimedOut) (py ''python'') 1 10 initial_world =
     (Exited 1, \<lparr>stdout = [MsgRequestFailed Timeout], net_calls = 1\<rparr>)"
  using failed_request_is_fatal [where net = "always (Reply 503 None)" and s = 503
      and query = "py ''python''" and page = 1 and per_page = 10 and w = initial_world]
  by (simp add: search_github_repos_def always_def raise_for_status_def print_def
      initial_world_def)

section \<open>Empty pages\<close>

text \<open>
  Line 52 computes the page count before line 54 looks at the items, so a \<open>total_count\<close>
  that is no number ends the run there: a reply with a null \<open>total_count\<close> and no items
  prints nothing and ends in an uncaught \<open>TypeError\<close>, exit status 1.
\<close>

theorem null_total_count_counterexample:
  "search_github_repos
     (always (Reply 200 (Some (JObj [(py ''total_count'', JNull), (py ''items'', JList [])]))))
     (py ''python'') 1 10 initial_world =
   (Uncaught TypeError, \<lparr>stdout = [], net_calls = 1\<rparr>) \<and>
   exit_status (fst (search_github_repos
     (always (Reply 200 (Some (JObj [(py ''total_count'', JNull), (py ''items'', JList [])]))))
     (py ''python'') 1 10 initial_world)) = 1"
  by (simp add: search_github_repos_def always_def raise_for_status_def response_json_def
      total_pages_of_def initial_world_def)

text \<open>
  C6, amended: for every reply whose parsed body has no items (the key absent or an empty
  list) and whose \<open>total_count\<close> is absent or an integer (a boolean counts as one), the
  program prints the no-results message and nothing else, and returns normally, so the
  exit status is 0. The page size is not 0; \<open>main\<close> passes 10.
\<close>

theorem empty_page_reports_no_results:
  assumes "per_page \<noteq> 0"
    and "net (request_for query page per_page) = Reply s (Some data)"
    and "\<not> (400 \<le> s \<and> s < 600)"
    and "dict_get data (py ''total_count'') (JInt 0) = Inr total_count"
    and "as_int total_count = Some t"
    and "dict_get data (py ''items'') (JList []) = Inr (JList [])"
  shows "search_github_repos net query page per_page w =
           (Returned, w\<lparr>net_calls := net_calls w + 1, stdout := stdout w @ [MsgNoResults]\<rparr>) \<and>
         exit_status (fst (search_github_repos net query page per_page w)) = 0"
  using assms(1,2,4,5,6)
  by (simp add: search_github_repos_def raise_for_status_ok [OF assms(3)] response_json_def
      total_pages_of_def print_def)

theorem empty_page_reports_no_results_witness:
  "(10::int) \<noteq> 0 \<and>
   search_github_repos
     (always (Reply 200 (Some (JObj [(py ''total_count'', JInt 0), (py ''items'', JList [])]))))
     (py ''python'') 1 10 initial_world =
   (Returned, \<lparr>stdout = [MsgNoResults], net_calls = 1\<rparr>) \<and>
   search_github_repos (always (Reply 200 (Some (JObj [])))) (py ''python'') 1 10 initial_world =
   (Returned, \<lparr>stdout = [MsgNoResults], net_calls = 1\<rparr>)"
  using empty_page_reports_no_results [where per_page = 10 and page = 1
      and query = "py ''python''" and s = 200 and t = 0 and w = initial_world
      and total_count = "JInt 0"
      and data = "JObj [(py ''total_count'', JInt 0), (py ''items'', JList [])]"
      and net = "always (Reply 200 (Some (JObj [(py ''total_count'', JInt 0),
                                                (py ''items'', JList [])])))"]
    empty_page_reports_no_results [where per_page = 10 and page = 1
      and query = "py ''python''" and s = 200 and t = 0 and w = initial_world
      and total_count = "JInt 0" and data = "JObj []"
      and net = "always (Reply 200 (Some (JObj [])))"]
  by (simp add: always_def initial_world_def)

section \<open>A reply without a total count\<close>



end
